theory Spec2Isabelle
  imports Main
begin

section \<open>Python values used by the views\<close>

text \<open>
  Python strings are modelled as \<^typ>\<open>string\<close>. The few non-ASCII characters of the
  source are written as their UTF-8 bytes; no property below depends on the length of a
  string that contains them.
\<close>

definition lfloor_str :: string where
  "lfloor_str = [CHR 0xE2, CHR 0x8C, CHR 0x8A]"

definition rfloor_str :: string where
  "rfloor_str = [CHR 0xE2, CHR 0x8C, CHR 0x8B]"

definition lceil_str :: string where
  "lceil_str = [CHR 0xE2, CHR 0x8C, CHR 0x88]"

definition rceil_str :: string where
  "rceil_str = [CHR 0xE2, CHR 0x8C, CHR 0x89]"

definition en_dash :: string where
  "en_dash = [CHR 0xE2, CHR 0x80, CHR 0x93]"

definition up_triangle :: string where
  "up_triangle = [CHR 0xF0, CHR 0x9F, CHR 0x94, CHR 0xBA]"

definition down_triangle :: string where
  "down_triangle = [CHR 0xF0, CHR 0x9F, CHR 0x94, CHR 0xBB]"

text \<open>\<open>str(n)\<close> and \<open>'{}'.format(n)\<close> for a Python int: decimal digits, a minus sign first
  when negative.\<close>

definition digit_char :: "nat \<Rightarrow> char" where
  "digit_char d = ''0123456789'' ! (d mod 10)"

function str_nat :: "nat \<Rightarrow> string" where
  "str_nat n = (if n < 10 then [digit_char n] else str_nat (n div 10) @ [digit_char n])"
  by pat_completeness auto
termination
  by (relation "measure id") auto

declare str_nat.simps [simp del]

definition str_int :: "int \<Rightarrow> string" where
  "str_int i = (if i < 0 then CHR ''-'' # str_nat (nat (- i)) else str_nat (nat i))"

text \<open>\<open>sep.join(parts)\<close>.\<close>

fun str_join :: "string \<Rightarrow> string list \<Rightarrow> string" where
  "str_join sep [] = []"
| "str_join sep [x] = x"
| "str_join sep (x # y # ys) = x @ sep @ str_join sep (y # ys)"

text \<open>
  Python slices \<open>xs[:n]\<close> and \<open>xs[n:]\<close> for any integer \<open>n\<close>: a negative bound counts from
  the end, and every bound is clipped to the list.
\<close>

definition slice_bound :: "'a list \<Rightarrow> int \<Rightarrow> nat" where
  "slice_bound xs n =
     (let len = int (length xs)
      in nat (if n < 0 then max 0 (len + n) else min n len))"

definition slice_to :: "'a list \<Rightarrow> int \<Rightarrow> 'a list" where
  "slice_to xs n = take (slice_bound xs n) xs"

definition slice_from :: "'a list \<Rightarrow> int \<Rightarrow> 'a list" where
  "slice_from xs n = drop (slice_bound xs n) xs"

section \<open>The monster models read by the id view\<close>

text \<open>
  \<open>MonsterModel\<close>, \<open>AwakeningModel\<close>, the active skill, the evolution edge and
  \<open>MonsterEvolution\<close> are declared outside the files at hand; the records hold the fields
  that \<open>padinfo/view/id.py\<close> reads, with the types its uses imply.
\<close>

record awakening_model =
  awoken_skill_id :: int
  name :: string

record active_skill_model =
  turn_max :: int
  turn_min :: int

record monster_model =
  monster_id :: int
  monster_no_na :: int
  is_equip :: bool
  awakenings :: "awakening_model list"
  superawakening_count :: int
  killers :: "string list"
  latent_slots :: int
  active_skill :: "active_skill_model option"

record evolution_model =
  reversible :: bool

record monster_evolution =
  monster :: monster_model
  evolution :: "evolution_model option"

record view_state =
  state_monster :: monster_model
  alt_monsters :: "monster_evolution list"

text \<open>
  The emoji table and the link builder live in other modules of the bot; the view
  functions take them as arguments.
\<close>

record emoji_map =
  get_awakening_emoji :: "int \<Rightarrow> string \<Rightarrow> string"
  get_emoji :: "string \<Rightarrow> string"

text \<open>
  The components of the \<open>discordmenu\<close> library that the view builds. A \<open>Box\<close> holds its
  positional arguments (a component, or \<open>None\<close>) and its \<open>delimiter\<close> keyword
  (\<open>None\<close> when the call leaves it to the library's default).
\<close>

datatype embed_node =
    Raw string
  | Text string
  | BoldText string
  | Box "embed_node option list" "string option"

record embed_field =
  field_name :: string
  links :: "(string \<times> string) list"
  highlighted :: nat

datatype py_error = StopIteration | IndexError

section \<open>padinfo/view/id.py\<close>

definition alt_fmt :: "monster_evolution \<Rightarrow> view_state \<Rightarrow> string" where
  "alt_fmt monsterevo state =
     (let n = str_int (monster_no_na (monster monsterevo))
      in if is_equip (monster monsterevo) then lceil_str @ n @ rceil_str
         else (case evolution monsterevo of
                 None \<Rightarrow> n
               | Some e \<Rightarrow> if reversible e then n else lfloor_str @ n @ rfloor_str))"

definition get_awakening_text :: "emoji_map \<Rightarrow> awakening_model \<Rightarrow> string" where
  "get_awakening_text E awakening =
     get_awakening_emoji E (awoken_skill_id awakening) (name awakening)"

text \<open>\<open>str.lower()\<close> is Python's own, defined over all of Unicode; the functions that
  call it take it as the argument \<open>lower\<close>.\<close>

definition killer_latent_emoji :: "emoji_map \<Rightarrow> (string \<Rightarrow> string) \<Rightarrow> string \<Rightarrow> string" where
  "killer_latent_emoji E lower latent_name =
     get_emoji E (''latent_killer_'' @ lower latent_name)"

text \<open>\<open>next(i for i, x in enumerate(xs) if P x)\<close>: the first index, or \<open>StopIteration\<close>.\<close>

fun first_index :: "('a \<Rightarrow> bool) \<Rightarrow> 'a list \<Rightarrow> nat option" where
  "first_index P [] = None"
| "first_index P (x # xs) = (if P x then Some 0 else map_option Suc (first_index P xs))"

definition legend_parts :: "view_state \<Rightarrow> string list" where
  "legend_parts state =
     (if list_ex (\<lambda>alt_evo. \<not> reversible (the (evolution alt_evo)))
           (filter (\<lambda>alt_evo. evolution alt_evo \<noteq> None) (alt_monsters state))
      then [lfloor_str @ ''Irreversible'' @ rfloor_str] else [])
     @ (if list_ex (\<lambda>alt_evo. is_equip (monster alt_evo)) (alt_monsters state)
        then [lceil_str @ ''Equip'' @ rceil_str] else [])"

definition evos_embed_field ::
  "(monster_model \<Rightarrow> string) \<Rightarrow> view_state \<Rightarrow> py_error + embed_field" where
  "evos_embed_field puzzledragonx state =
     (let field_text = ''**Evos**'';
          help_text = (if legend_parts state \<noteq> []
                       then '' '' @ en_dash @ '' Help: '' @ str_join '' '' (legend_parts state)
                       else []);
          ls = map (\<lambda>me. (alt_fmt me state, puzzledragonx (monster me))) (alt_monsters state)
      in case first_index (\<lambda>me. monster_id (state_monster state) = monster_id (monster me))
                (alt_monsters state) of
           None \<Rightarrow> Inl StopIteration
         | Some i \<Rightarrow> Inr \<lparr>field_name = field_text @ help_text, links = ls, highlighted = i\<rparr>)"

definition normal_awakenings_row :: "emoji_map \<Rightarrow> monster_model \<Rightarrow> embed_node" where
  "normal_awakenings_row E m =
     (let normal_awakenings = int (length (awakenings m)) - superawakening_count m;
          normal_awakenings_emojis =
            map (get_awakening_text E) (slice_to (awakenings m) normal_awakenings)
      in Box (map (\<lambda>e. Some (Text e)) normal_awakenings_emojis) (Some '' ''))"

definition super_awakenings_row :: "emoji_map \<Rightarrow> monster_model \<Rightarrow> embed_node option" where
  "super_awakenings_row E m =
     (let normal_awakenings = int (length (awakenings m)) - superawakening_count m;
          super_awakenings_emojis =
            map (get_awakening_text E) (slice_from (awakenings m) normal_awakenings)
      in if length super_awakenings_emojis > 0
         then Some (Box (Some (Text (get_emoji E ''sa_questionmark''))
                         # map (\<lambda>e. Some (Text e)) super_awakenings_emojis) (Some '' ''))
         else None)"

function all_awakenings_row ::
  "emoji_map \<Rightarrow> monster_model \<Rightarrow> monster_model \<Rightarrow> embed_node" where
  "all_awakenings_row E m transform_base =
     (if length (awakenings m) = 0 then Box [Some (Text ''No Awakenings'')] None
      else Box
        [Some (Box [Some (Raw (if m \<noteq> transform_base then up_triangle else [])),
                    Some (normal_awakenings_row E m)] (Some '' '')),
         (if m \<noteq> transform_base
          then Some (Box [Some (Raw down_triangle),
                          Some (all_awakenings_row E transform_base transform_base)] (Some '' ''))
          else None),
         super_awakenings_row E m] None)"
  by pat_completeness auto
termination
  by (relation "measure (\<lambda>(E, m, transform_base). if m = transform_base then 0 else 1)") auto

declare all_awakenings_row.simps [simp del]

definition killers_row ::
  "emoji_map \<Rightarrow> (string \<Rightarrow> string) \<Rightarrow> monster_model \<Rightarrow> monster_model \<Rightarrow> embed_node" where
  "killers_row E lower m transform_base =
     (let ks = (if m = transform_base then killers m else killers transform_base);
          killers_text = (if ''Any'' \<in> set ks then ''Any''
                          else str_join '' '' (map (killer_latent_emoji E lower) ks))
      in Box
        [Some (BoldText ''Available killers:''),
         Some (Text (if m \<noteq> transform_base then down_triangle else [])),
         Some (Text (''['' @ str_int (if m = transform_base then latent_slots m
                                      else latent_slots transform_base) @ '' slots]'')),
         Some (Text killers_text)] (Some '' ''))"

definition active_skill_header :: "monster_model \<Rightarrow> monster_model \<Rightarrow> embed_node" where
  "active_skill_header m transform_base =
     (let active_cd =
        (if m = transform_base
         then (case active_skill m of
                 Some a \<Rightarrow> ''('' @ str_int (turn_max a) @ '' -> '' @ str_int (turn_min a) @ '')''
               | None \<Rightarrow> ''None'')
         else
           (let base_cd =
              (case active_skill transform_base of
                 Some b \<Rightarrow> '' ('' @ down_triangle @ '' '' @ str_int (turn_max b) @ '' -> ''
                             @ str_int (turn_min b) @ '')''
               | None \<Rightarrow> ''None'')
            in (case active_skill m of
                  Some a \<Rightarrow> ''('' @ str_int (turn_min a) @ '' cd)''
                | None \<Rightarrow> ''None'') @ base_cd))
      in Box [Some (BoldText ''Active Skill''), Some (BoldText active_cd)] (Some '' ''))"

section \<open>dbcog/dbcog.py: the resolution flags\<close>

text \<open>
  A flag dictionary maps option names to values. \<open>DEFAULT_SERVER\<close> is a constant of
  another module and is a parameter here. The per-user store is the bot's configuration:
  a user with nothing stored has the registered default, the empty dictionary.
\<close>

datatype 'srv flag_value = FlagBool bool | FlagServer 'srv | FlagText string

type_synonym 'srv fm_flags = "string \<rightharpoonup> 'srv flag_value"

definition fm_flags_default :: "'srv \<Rightarrow> 'srv fm_flags" where
  "fm_flags_default DEFAULT_SERVER =
     [''na_prio'' \<mapsto> FlagBool True, ''server'' \<mapsto> FlagServer DEFAULT_SERVER]"

definition user_fm_flags :: "(int \<rightharpoonup> 'srv fm_flags) \<Rightarrow> int \<Rightarrow> 'srv fm_flags" where
  "user_fm_flags config author_id =
     (case config author_id of None \<Rightarrow> Map.empty | Some flags \<Rightarrow> flags)"

text \<open>\<open>{**self.fm_flags_default, **user_flags}\<close>: the right operand wins on a shared key.\<close>

definition get_fm_flags :: "'srv \<Rightarrow> (int \<rightharpoonup> 'srv fm_flags) \<Rightarrow> int \<Rightarrow> 'srv fm_flags" where
  "get_fm_flags DEFAULT_SERVER config author_id =
     fm_flags_default DEFAULT_SERVER ++ user_fm_flags config author_id"

text \<open>\<open>FindMonster(self, flags).find_monster(query)\<close>: the resolver class is a parameter.\<close>

definition find_monster ::
  "('srv fm_flags \<Rightarrow> string \<Rightarrow> 'r) \<Rightarrow> 'srv \<Rightarrow> (int \<rightharpoonup> 'srv fm_flags) \<Rightarrow> string \<Rightarrow> int \<Rightarrow> 'r" where
  "find_monster FindMonster DEFAULT_SERVER config query author_id =
     FindMonster (get_fm_flags DEFAULT_SERVER config author_id) query"

definition find_monsters ::
  "('srv fm_flags \<Rightarrow> string \<Rightarrow> 'r list) \<Rightarrow> 'srv \<Rightarrow> (int \<rightharpoonup> 'srv fm_flags) \<Rightarrow> string \<Rightarrow> int
     \<Rightarrow> 'r list" where
  "find_monsters FindMonsters DEFAULT_SERVER config query author_id =
     FindMonsters (get_fm_flags DEFAULT_SERVER config author_id) query"

section \<open>dbcog/dbcog.py: the issue report\<close>

record config_global =
  indexlog :: int
  debug_mode :: bool
  debug_mode_monsters :: "int list"

record 'ch red_bot =
  get_channel :: "int \<Rightarrow> 'ch option"
  get_user :: "int \<Rightarrow> 'ch option"
  owner_ids :: "int list"
  valid_prefixes :: "string list"

record monster_graph =
  graph_issues :: "string list"
  debug_monster_ids :: "int list option"

definition get_debug_monsters :: "config_global \<Rightarrow> int list option" where
  "get_debug_monsters config =
     (if debug_mode config then Some (debug_mode_monsters config) else None)"

definition newline :: string where
  "newline = [CHR 0x0A]"

definition failure_channel_hint :: "string \<Rightarrow> string" where
  "failure_channel_hint prefix =
     ''Use `'' @ prefix @ ''dbcog setfailurechannel <channel>` to move these out of your DMs!''"

text \<open>
  \<open>check_index\<close> returns the messages it sends, in order, each with its channel.
  \<open>index_issues\<close> holds the issue list of every index, in the order of
  \<open>self.indexes.values()\<close>; \<open>test_results\<close> is what \<open>run_tests\<close> returned; \<open>pagify\<close>
  and \<open>box\<close> are the bot framework's text helpers. Taking the first prefix of an empty
  prefix list raises \<open>IndexError\<close> before anything is sent.
\<close>

definition check_index ::
  "(string \<Rightarrow> string list) \<Rightarrow> (string \<Rightarrow> string) \<Rightarrow> 'ch red_bot \<Rightarrow> config_global \<Rightarrow> monster_graph
     \<Rightarrow> string list list \<Rightarrow> string list \<Rightarrow> py_error + ('ch \<times> string) list" where
  "check_index pagify box bot' config graph index_issues test_results =
     (let issues = graph_issues graph @ concat index_issues @ test_results
      in if issues \<noteq> [] \<and> debug_monster_ids graph = None
         then
           (let pages = pagify (''Load Warnings:'' @ newline
                                  @ str_join newline (slice_to issues 100))
            in case get_channel bot' (indexlog config) of
                 Some channel \<Rightarrow> Inr (map (\<lambda>page. (channel, box page)) pages)
               | None \<Rightarrow>
                   (let channels = List.map_filter (get_user bot') (owner_ids bot')
                    in if channels = []
                       then Inr []
                       else (case valid_prefixes bot' of
                               [] \<Rightarrow> Inl IndexError
                             | prefix # _ \<Rightarrow>
                                 Inr (map (\<lambda>channel. (channel, failure_channel_hint prefix))
                                        channels
                                      @ concat (map (\<lambda>page. map (\<lambda>channel. (channel, box page))
                                                              channels) pages)))))
         else Inr [])"

section \<open>dbcog/dbcog.py: readiness, the reload gates and the refresh loop\<close>

text \<open>
  A raised exception is an instance of \<open>Exception\<close>, which \<open>except Exception\<close> catches, or
  of \<open>BaseException\<close> outside it (a cancellation, a keyboard interrupt), which it does
  not.
\<close>

datatype exn = PyException string | PyBaseException string

fun is_Exception :: "exn \<Rightarrow> bool" where
  "is_Exception (PyException _) = True"
| "is_Exception (PyBaseException _) = False"

text \<open>
  The state of the cog that the reload code shares between tasks: the flag of the
  \<open>asyncio.Event\<close> \<open>_is_ready\<close> and the tasks suspended in its \<open>wait()\<close>, whether each
  \<open>asyncio.Lock\<close> is held, the loaded database (numbered by generation, \<open>None\<close> when
  there is none) and the generation that the indexes were last built from.
\<close>

record dbcog =
  is_ready :: bool
  ready_waiters :: "nat list"
  fir_lock :: bool
  fir3_lock :: bool
  database :: "nat option"
  indexes :: "nat option"

definition init_dbcog :: dbcog where
  "init_dbcog = \<lparr>is_ready = False, ready_waiters = [], fir_lock = False, fir3_lock = False,
                  database = None, indexes = None\<rparr>"

text \<open>
  \<open>Event.set()\<close> raises the flag and resumes every task suspended in \<open>wait()\<close>;
  \<open>Event.clear()\<close> lowers the flag; \<open>Event.wait()\<close> returns at once when the flag is up
  and suspends the caller otherwise.
\<close>

definition event_set :: "dbcog \<Rightarrow> dbcog" where
  "event_set s = (if is_ready s then s else s\<lparr>is_ready := True, ready_waiters := []\<rparr>)"

definition event_clear :: "dbcog \<Rightarrow> dbcog" where
  "event_clear s = s\<lparr>is_ready := False\<rparr>"

definition event_wait :: "nat \<Rightarrow> dbcog \<Rightarrow> bool \<times> dbcog" where
  "event_wait task s =
     (if is_ready s then (True, s)
      else (False, s\<lparr>ready_waiters := ready_waiters s @ [task]\<rparr>))"

text \<open>
  What the world outside the cog answers during one step of a task: whether fetching the
  data file raises, what \<open>load_database\<close> returns or raises, whether building the indexes
  raises, whether the bot still holds this cog under its name, whether \<open>asyncio.sleep\<close>
  raises, and the elapsed time as the reply prints it. A download-and-refresh is taken as one
  step with its outcome given by the world; it writes the database and the indexes and
  touches neither the readiness flag nor the locks.
\<close>

record world =
  fetch_raises :: "exn option"
  load_result :: "exn + nat"
  index_raises :: "exn option"
  registered :: bool
  sleep_raises :: "exn option"
  elapsed :: string

definition create_index :: "world \<Rightarrow> dbcog \<Rightarrow> exn option \<times> dbcog" where
  "create_index w s =
     (case database s of
        None \<Rightarrow> (Some (PyException ''AttributeError''), s)
      | Some db \<Rightarrow>
          (case index_raises w of
             Some ex \<Rightarrow> (Some ex, s)
           | None \<Rightarrow> (None, s\<lparr>indexes := Some db\<rparr>)))"

definition download_and_refresh_nicknames :: "world \<Rightarrow> dbcog \<Rightarrow> exn option \<times> dbcog" where
  "download_and_refresh_nicknames w s =
     (case fetch_raises w of
        Some ex \<Rightarrow> (Some ex, s)
      | None \<Rightarrow>
          (case load_result w of
             Inl ex \<Rightarrow> (Some ex, s)
           | Inr db \<Rightarrow> create_index w (s\<lparr>database := Some db\<rparr>)))"

definition cog_unload :: "dbcog \<Rightarrow> dbcog" where
  "cog_unload s = event_clear (s\<lparr>database := None\<rparr>)"

definition wait_time :: "bool \<Rightarrow> nat" where
  "wait_time short_wait = (if short_wait then 60 else 60 * 60 * 4)"

text \<open>
  A coroutine is run one step at a time, from one point where it may be suspended to the
  next; between two steps of a task, other tasks may run. A step returns what it did (a
  message sent to the caller, a finished reload), the point the task has reached and the
  new state of the cog. A step of a task that cannot go on (it waits for a lock or for
  readiness, or it has ended) changes nothing.
\<close>

datatype pc =
    Entry | EnterTyping | AcquireGate | Announce | AwaitReady | Suspended | Work | Report
  | LoopTest | Refresh | Sleep nat
  | Returned | Raised exn

datatype effect = Send string | Reloaded

fun wait_until_ready :: "world \<Rightarrow> nat \<Rightarrow> pc \<Rightarrow> dbcog \<Rightarrow> effect list \<times> pc \<times> dbcog" where
  "wait_until_ready w task Entry s =
     (case event_wait task s of
        (True, s') \<Rightarrow> ([], Returned, s')
      | (False, s') \<Rightarrow> ([], Suspended, s'))"
| "wait_until_ready w task Suspended s =
     (if task \<in> set (ready_waiters s) then ([], Suspended, s) else ([], Returned, s))"
| "wait_until_ready w task p s = ([], p, s)"

fun forceindexreload :: "world \<Rightarrow> nat \<Rightarrow> pc \<Rightarrow> dbcog \<Rightarrow> effect list \<times> pc \<times> dbcog" where
  "forceindexreload w task Entry s =
     (if fir_lock s then ([Send ''Index is already being reloaded.''], Returned, s)
      else ([], EnterTyping, s))"
| "forceindexreload w task EnterTyping s = ([], AcquireGate, s)"
| "forceindexreload w task AcquireGate s =
     (if fir_lock s then ([], AcquireGate, s) else ([], Announce, s\<lparr>fir_lock := True\<rparr>))"
| "forceindexreload w task Announce s = ([Send ''Starting reload...''], AwaitReady, s)"
| "forceindexreload w task AwaitReady s =
     (case event_wait task s of
        (True, s') \<Rightarrow> ([], Work, s')
      | (False, s') \<Rightarrow> ([], Suspended, s'))"
| "forceindexreload w task Suspended s =
     (if task \<in> set (ready_waiters s) then ([], Suspended, s) else ([], Work, s))"
| "forceindexreload w task Work s =
     (case download_and_refresh_nicknames w s of
        (None, s') \<Rightarrow> ([Reloaded], Report, s')
      | (Some ex, s') \<Rightarrow> ([], Raised ex, s'\<lparr>fir_lock := False\<rparr>))"
| "forceindexreload w task Report s =
     ([Send (''Reload finished in '' @ elapsed w @ '' seconds.'')], Returned,
      s\<lparr>fir_lock := False\<rparr>)"
| "forceindexreload w task p s = ([], p, s)"

fun forceindexreload3 :: "world \<Rightarrow> nat \<Rightarrow> pc \<Rightarrow> dbcog \<Rightarrow> effect list \<times> pc \<times> dbcog" where
  "forceindexreload3 w task Entry s =
     (if fir3_lock s then ([Send ''Index is already being reloaded.''], Returned, s)
      else ([], EnterTyping, s))"
| "forceindexreload3 w task EnterTyping s = ([], AcquireGate, s)"
| "forceindexreload3 w task AcquireGate s =
     (if fir3_lock s then ([], AcquireGate, s) else ([], AwaitReady, s\<lparr>fir3_lock := True\<rparr>))"
| "forceindexreload3 w task AwaitReady s =
     (case event_wait task s of
        (True, s') \<Rightarrow> ([], Work, s')
      | (False, s') \<Rightarrow> ([], Suspended, s'))"
| "forceindexreload3 w task Suspended s =
     (if task \<in> set (ready_waiters s) then ([], Suspended, s) else ([], Work, s))"
| "forceindexreload3 w task Work s =
     (case create_index w s of
        (None, s') \<Rightarrow> ([Reloaded], Report, s')
      | (Some ex, s') \<Rightarrow> ([], Raised ex, s'\<lparr>fir3_lock := False\<rparr>))"
| "forceindexreload3 w task Report s =
     ([Send (''Reload finished in '' @ elapsed w @ '' seconds.'')], Returned,
      s\<lparr>fir3_lock := False\<rparr>)"
| "forceindexreload3 w task p s = ([], p, s)"

fun reload_data_task :: "world \<Rightarrow> nat \<Rightarrow> pc \<Rightarrow> dbcog \<Rightarrow> effect list \<times> pc \<times> dbcog" where
  "reload_data_task w task Entry s = ([], LoopTest, s)"
| "reload_data_task w task LoopTest s =
     (if registered w then ([], Refresh, s) else ([], Returned, s))"
| "reload_data_task w task Refresh s =
     (case download_and_refresh_nicknames w s of
        (None, s') \<Rightarrow> ([Reloaded], Sleep (wait_time False), event_set s')
      | (Some ex, s') \<Rightarrow>
          if is_Exception ex then ([], Sleep (wait_time True), s') else ([], Raised ex, s'))"
| "reload_data_task w task (Sleep seconds) s =
     (case sleep_raises w of
        None \<Rightarrow> ([], LoopTest, s)
      | Some ex \<Rightarrow> ([], Raised ex, s))"
| "reload_data_task w task p s = ([], p, s)"

text \<open>
  The tasks of the system: the background loop, started once with the cog, and the
  invocations of the two commands and of \<open>wait_until_ready\<close> that arrive later. A task
  is named by its position in the list.
\<close>

datatype task_kind = ReloadDataTask | ForceIndexReload | ForceIndexReload3 | WaitUntilReady

fun coroutine ::
  "task_kind \<Rightarrow> world \<Rightarrow> nat \<Rightarrow> pc \<Rightarrow> dbcog \<Rightarrow> effect list \<times> pc \<times> dbcog" where
  "coroutine ReloadDataTask = reload_data_task"
| "coroutine ForceIndexReload = forceindexreload"
| "coroutine ForceIndexReload3 = forceindexreload3"
| "coroutine WaitUntilReady = wait_until_ready"

record system =
  cog :: dbcog
  tasks :: "(task_kind \<times> pc) list"

definition init_system :: system where
  "init_system = \<lparr>cog = init_dbcog, tasks = [(ReloadDataTask, Entry)]\<rparr>"

datatype event = Invoke task_kind | Run nat world | Unload

fun step :: "event \<Rightarrow> system \<Rightarrow> (task_kind \<times> effect) list \<times> system" where
  "step (Invoke kind) sys =
     (if kind = ReloadDataTask then ([], sys)
      else ([], sys\<lparr>tasks := tasks sys @ [(kind, Entry)]\<rparr>))"
| "step (Run task w) sys =
     (if task < length (tasks sys)
      then (case tasks sys ! task of
              (kind, p) \<Rightarrow>
                (case coroutine kind w task p (cog sys) of
                   (effects, p', s') \<Rightarrow>
                     (map (Pair kind) effects,
                      sys\<lparr>cog := s', tasks := (tasks sys)[task := (kind, p')]\<rparr>)))
      else ([], sys))"
| "step Unload sys = ([], sys\<lparr>cog := cog_unload (cog sys)\<rparr>)"

fun exec :: "event list \<Rightarrow> system \<Rightarrow> (task_kind \<times> effect) list \<times> system" where
  "exec [] sys = ([], sys)"
| "exec (ev # evs) sys =
     (case step ev sys of
        (effects, sys') \<Rightarrow>
          (case exec evs sys' of (trace, sys'') \<Rightarrow> (effects @ trace, sys'')))"

section \<open>Observations on executions\<close>

text \<open>The commands that force a reload, the lock each of them takes, and the points of a
  command at which it holds that lock.\<close>

fun forced :: "task_kind \<Rightarrow> bool" where
  "forced ForceIndexReload = True"
| "forced ForceIndexReload3 = True"
| "forced _ = False"

fun gate :: "task_kind \<Rightarrow> dbcog \<Rightarrow> bool" where
  "gate ForceIndexReload s = fir_lock s"
| "gate ForceIndexReload3 s = fir3_lock s"
| "gate _ s = False"

fun holds_gate :: "pc \<Rightarrow> bool" where
  "holds_gate Announce = True"
| "holds_gate AwaitReady = True"
| "holds_gate Suspended = True"
| "holds_gate Work = True"
| "holds_gate Report = True"
| "holds_gate _ = False"

text \<open>The points of a command that lie before its reload work, and the end reached
  without doing any.\<close>

fun before_work :: "pc \<Rightarrow> bool" where
  "before_work Entry = True"
| "before_work EnterTyping = True"
| "before_work AcquireGate = True"
| "before_work Announce = True"
| "before_work AwaitReady = True"
| "before_work Suspended = True"
| "before_work Returned = True"
| "before_work _ = False"

text \<open>The task that finished the first reload of a trace.\<close>

fun first_reload :: "(task_kind \<times> effect) list \<Rightarrow> task_kind option" where
  "first_reload [] = None"
| "first_reload ((kind, Reloaded) # trace) = Some kind"
| "first_reload ((kind, Send text) # trace) = first_reload trace"

text \<open>
  The system before readiness was ever signalled: the flag is down, no command is at or
  past its reload work, no caller of \<open>wait_until_ready\<close> has returned, and every task
  suspended on the flag is still among its waiters.
\<close>

definition not_yet_ready :: "system \<Rightarrow> bool" where
  "not_yet_ready sys =
     (\<not> is_ready (cog sys)
      \<and> (\<forall>task < length (tasks sys).
           case tasks sys ! task of
             (kind, p) \<Rightarrow>
               (forced kind \<longrightarrow> before_work p)
               \<and> (kind = WaitUntilReady \<longrightarrow> p \<noteq> Returned)
               \<and> (kind \<noteq> ReloadDataTask \<and> p = Suspended \<longrightarrow>
                    task \<in> set (ready_waiters (cog sys)))))"

text \<open>
  Mutual exclusion on the lock of a command: when the lock is held, exactly one invocation
  of the command is at a point that holds it; when it is free, none is.
\<close>

definition holders :: "task_kind \<Rightarrow> system \<Rightarrow> nat" where
  "holders kind sys = length (filter (\<lambda>(k, p). k = kind \<and> holds_gate p) (tasks sys))"

definition gate_owned :: "task_kind \<Rightarrow> system \<Rightarrow> bool" where
  "gate_owned kind sys = (holders kind sys = (if gate kind (cog sys) then 1 else 0))"

section \<open>Concrete inputs\<close>

definition ex_emoji :: emoji_map where
  "ex_emoji = \<lparr>get_awakening_emoji = (\<lambda>i n. '':'' @ n @ '':''), get_emoji = (\<lambda>s. '':'' @ s @ '':'')\<rparr>"

text \<open>The lowering function of the examples, whose killer names are ASCII: it lowers the
  letters \<open>A\<close> to \<open>Z\<close> and keeps every other character, which is what \<open>str.lower()\<close>
  returns on a string of ASCII characters.\<close>

definition ex_lower_char :: "char \<Rightarrow> char" where
  "ex_lower_char c =
     (case map_of (zip ''ABCDEFGHIJKLMNOPQRSTUVWXYZ'' ''abcdefghijklmnopqrstuvwxyz'') c of
        Some l \<Rightarrow> l
      | None \<Rightarrow> c)"

definition ex_lower :: "string \<Rightarrow> string" where
  "ex_lower s = map ex_lower_char s"

definition ex_base :: monster_model where
  "ex_base = \<lparr>monster_id = 500, monster_no_na = 500, is_equip = False,
     awakenings = [\<lparr>awoken_skill_id = 21, name = ''skill_boost''\<rparr>,
                   \<lparr>awoken_skill_id = 27, name = ''two_pronged''\<rparr>,
                   \<lparr>awoken_skill_id = 43, name = ''seven_combo''\<rparr>],
     superawakening_count = 1, killers = [''God'', ''Dragon''], latent_slots = 8,
     active_skill = Some \<lparr>turn_max = 20, turn_min = 10\<rparr>\<rparr>"

definition ex_transformed :: monster_model where
  "ex_transformed = \<lparr>monster_id = 501, monster_no_na = 501, is_equip = False,
     awakenings = [], superawakening_count = 0, killers = [''Devil''], latent_slots = 6,
     active_skill = Some \<lparr>turn_max = 3, turn_min = 3\<rparr>\<rparr>"

definition ex_equip :: monster_model where
  "ex_equip = \<lparr>monster_id = 502, monster_no_na = 502, is_equip = True,
     awakenings = [\<lparr>awoken_skill_id = 49, name = ''equip''\<rparr>],
     superawakening_count = 0, killers = [], latent_slots = 0, active_skill = None\<rparr>"

definition ex_state :: view_state where
  "ex_state = \<lparr>state_monster = ex_transformed,
     alt_monsters = [\<lparr>monster = ex_base, evolution = None\<rparr>,
                     \<lparr>monster = ex_transformed, evolution = Some \<lparr>reversible = False\<rparr>\<rparr>,
                     \<lparr>monster = ex_equip, evolution = Some \<lparr>reversible = False\<rparr>\<rparr>]\<rparr>"

definition ex_user_config :: "int \<rightharpoonup> string fm_flags" where
  "ex_user_config = [7 \<mapsto> [''server'' \<mapsto> FlagServer ''NA'']]"

definition ex_bot :: "string red_bot" where
  "ex_bot = \<lparr>get_channel = (\<lambda>i. if i = 42 then Some ''#index-log'' else None),
             get_user = (\<lambda>i. if i = 1 then Some ''@owner'' else None),
             owner_ids = [1, 2], valid_prefixes = [''^'']\<rparr>"

definition ex_config :: config_global where
  "ex_config = \<lparr>indexlog = 42, debug_mode = False, debug_mode_monsters = [3260]\<rparr>"

definition ex_graph :: monster_graph where
  "ex_graph = \<lparr>graph_issues = [''g1'', ''g2''], debug_monster_ids = None\<rparr>"

definition ex_debug_graph :: monster_graph where
  "ex_debug_graph = \<lparr>graph_issues = [''g1'', ''g2''], debug_monster_ids = Some [3260]\<rparr>"

definition ex_pagify :: "string \<Rightarrow> string list" where
  "ex_pagify text = [text]"

definition ex_box :: "string \<Rightarrow> string" where
  "ex_box text = ''```'' @ text @ ''```''"

definition ex_world :: world where
  "ex_world = \<lparr>fetch_raises = None, load_result = Inr 1, index_raises = None,
               registered = True, sleep_raises = None, elapsed = ''0.5''\<rparr>"

definition ex_failing_world :: world where
  "ex_failing_world = ex_world\<lparr>fetch_raises := Some (PyException ''ClientError'')\<rparr>"

text \<open>A schedule: a forced reload arrives before the first refresh, takes its lock and
  suspends; the background loop refreshes; the forced reload resumes and reloads.\<close>

definition ex_schedule :: "event list" where
  "ex_schedule =
     [Invoke ForceIndexReload,
      Run 1 ex_world, Run 1 ex_world, Run 1 ex_world, Run 1 ex_world, Run 1 ex_world,
      Run 1 ex_world,
      Run 0 ex_world, Run 0 ex_world, Run 0 ex_world,
      Run 1 ex_world, Run 1 ex_world, Run 1 ex_world]"

definition ex_first_cycle :: "event list" where
  "ex_first_cycle = [Run 0 ex_world, Run 0 ex_world, Run 0 ex_world]"

text \<open>After the first cycle the cog is unloaded while the loop is about to refresh again.\<close>

definition ex_after_unload :: "event list" where
  "ex_after_unload = ex_first_cycle @ [Unload, Run 0 ex_world, Run 0 ex_world]"

definition ex_cancelled_world :: world where
  "ex_cancelled_world = ex_world\<lparr>fetch_raises := Some (PyBaseException ''CancelledError'')\<rparr>"

definition ex_sleep_failing_world :: world where
  "ex_sleep_failing_world = ex_world\<lparr>sleep_raises := Some (PyException ''RuntimeError'')\<rparr>"

section \<open>Facts about the Python values\<close>

lemma slice_to_take: "0 \<le> n \<Longrightarrow> slice_to xs n = take (nat n) xs"
  by (auto simp: slice_to_def slice_bound_def Let_def min_def)

lemma slice_from_drop: "0 \<le> n \<Longrightarrow> slice_from xs n = drop (nat n) xs"
  by (auto simp: slice_from_def slice_bound_def Let_def min_def)

lemma slice_partition: "slice_to xs n @ slice_from xs n = xs"
  by (simp add: slice_to_def slice_from_def)

section \<open>The awakening rows\<close>

text \<open>
  Claim C6. For a monster whose count of super awakenings does not exceed the length of
  its awakening list (the count is the number of super awakenings at the end of that
  list), the normal awakenings row renders exactly the first
  \<open>len(awakenings) - superawakening_count\<close> awakenings, in order; the super awakenings
  row renders exactly the remaining suffix after the question-mark emoji, and is \<open>None\<close>
  when that suffix is empty.
\<close>

theorem awakenings_rows_split:
  assumes "superawakening_count m \<le> int (length (awakenings m))"
  shows "normal_awakenings_row E m =
           Box (map (\<lambda>a. Some (Text (get_awakening_text E a)))
                  (take (nat (int (length (awakenings m)) - superawakening_count m))
                     (awakenings m)))
               (Some '' '')
       \<and> super_awakenings_row E m =
           (let suffix = drop (nat (int (length (awakenings m)) - superawakening_count m))
                           (awakenings m)
            in if suffix = [] then None
               else Some (Box (Some (Text (get_emoji E ''sa_questionmark''))
                               # map (\<lambda>a. Some (Text (get_awakening_text E a))) suffix)
                              (Some '' '')))"
  using assms
  by (simp add: normal_awakenings_row_def super_awakenings_row_def slice_to_take
      slice_from_drop Let_def comp_def)

theorem awakenings_rows_split_witness:
  "superawakening_count ex_base \<le> int (length (awakenings ex_base))
   \<and> normal_awakenings_row ex_emoji ex_base =
       Box [Some (Text '':skill_boost:''), Some (Text '':two_pronged:'')] (Some '' '')
   \<and> super_awakenings_row ex_emoji ex_base =
       Some (Box [Some (Text '':sa_questionmark:''), Some (Text '':seven_combo:'')] (Some '' ''))
   \<and> super_awakenings_row ex_emoji ex_transformed = None"
  using awakenings_rows_split [of ex_base ex_emoji]
        awakenings_rows_split [of ex_transformed ex_emoji]
  by (simp add: ex_base_def ex_transformed_def ex_emoji_def get_awakening_text_def)

section \<open>The evolution list\<close>

lemma brackets_differ: "lceil_str @ a @ rceil_str \<noteq> lfloor_str @ b @ rfloor_str"
  by (simp add: lceil_str_def lfloor_str_def)

lemma floor_not_plain: "lfloor_str @ a @ rfloor_str \<noteq> a"
proof
  assume "lfloor_str @ a @ rfloor_str = a"
  then have "length (lfloor_str @ a @ rfloor_str) = length a" by simp
  then show False by (simp add: lfloor_str_def)
qed

lemma alt_fmt_floor_iff:
  "alt_fmt me st = lfloor_str @ str_int (monster_no_na (monster me)) @ rfloor_str
     \<longleftrightarrow> \<not> is_equip (monster me) \<and> (\<exists>e. evolution me = Some e \<and> \<not> reversible e)"
  using brackets_differ floor_not_plain [of "str_int (monster_no_na (monster me))"]
  by (auto simp: alt_fmt_def Let_def split: option.splits)

lemma alt_fmt_equip:
  "is_equip (monster me) \<Longrightarrow>
   alt_fmt me st = lceil_str @ str_int (monster_no_na (monster me)) @ rceil_str"
  by (simp add: alt_fmt_def)

lemma alt_fmt_plain:
  "\<not> is_equip (monster me) \<Longrightarrow>
   evolution me = None \<or> (\<exists>e. evolution me = Some e \<and> reversible e) \<Longrightarrow>
   alt_fmt me st = str_int (monster_no_na (monster me))"
  by (auto simp: alt_fmt_def)

lemma any_irreversible_iff:
  "list_ex (\<lambda>alt_evo. \<not> reversible (the (evolution alt_evo)))
           (filter (\<lambda>alt_evo. evolution alt_evo \<noteq> None) alts)
   \<longleftrightarrow> (\<exists>alt \<in> set alts. \<exists>e. evolution alt = Some e \<and> \<not> reversible e)"
  by (fastforce simp: list_ex_iff)

lemma irreversible_legend_iff:
  "lfloor_str @ ''Irreversible'' @ rfloor_str \<in> set (legend_parts state)
     \<longleftrightarrow> (\<exists>alt \<in> set (alt_monsters state). \<exists>e. evolution alt = Some e \<and> \<not> reversible e)"
proof -
  have "lceil_str @ ''Equip'' @ rceil_str \<noteq> lfloor_str @ ''Irreversible'' @ rfloor_str"
    by (rule brackets_differ)
  then show ?thesis
    unfolding legend_parts_def any_irreversible_iff by auto
qed

lemma first_index_Some:
  "\<exists>x \<in> set xs. P x \<Longrightarrow> \<exists>i. first_index P xs = Some i"
  by (induction xs) auto

lemma evos_embed_field_returns:
  assumes "\<exists>alt \<in> set (alt_monsters state).
             monster_id (state_monster state) = monster_id (monster alt)"
  shows "\<exists>i. evos_embed_field P state =
           Inr \<lparr>field_name = ''**Evos**'' @
                   (if legend_parts state = [] then []
                    else '' '' @ en_dash @ '' Help: '' @ str_join '' '' (legend_parts state)),
                 links = map (\<lambda>me. (alt_fmt me state, P (monster me))) (alt_monsters state),
                 highlighted = i\<rparr>"
proof -
  from first_index_Some [OF assms] obtain i where
    "first_index (\<lambda>me. monster_id (state_monster state) = monster_id (monster me))
       (alt_monsters state) = Some i" ..
  then show ?thesis
    by (simp add: evos_embed_field_def Let_def)
qed

text \<open>
  Claim C7. In the evolution list, the label of an alternative (its \<open>monster_no_na\<close> in
  decimal) is wrapped in floor brackets exactly when the monster is not an equip and has
  an evolution edge that is not reversible; an equip is wrapped in ceiling brackets
  whatever its evolution; a monster that is not an equip and has no evolution edge, or a
  reversible one, is shown bare. The legend entry for irreversible evolutions is among
  the legend parts exactly when some listed alternative has an evolution edge that is not
  reversible, and when the shown monster is among the alternatives the field is returned
  with the legend parts joined after the title and one such label per alternative.
\<close>

theorem evos_labels_and_legend:
  "(alt_fmt me st = lfloor_str @ str_int (monster_no_na (monster me)) @ rfloor_str
      \<longleftrightarrow> \<not> is_equip (monster me) \<and> (\<exists>e. evolution me = Some e \<and> \<not> reversible e))
   \<and> (is_equip (monster me) \<longrightarrow>
        alt_fmt me st = lceil_str @ str_int (monster_no_na (monster me)) @ rceil_str)
   \<and> (\<not> is_equip (monster me)
        \<and> (evolution me = None \<or> (\<exists>e. evolution me = Some e \<and> reversible e)) \<longrightarrow>
        alt_fmt me st = str_int (monster_no_na (monster me)))
   \<and> (lfloor_str @ ''Irreversible'' @ rfloor_str \<in> set (legend_parts state)
        \<longleftrightarrow> (\<exists>alt \<in> set (alt_monsters state). \<exists>e. evolution alt = Some e \<and> \<not> reversible e))
   \<and> ((\<exists>alt \<in> set (alt_monsters state).
          monster_id (state_monster state) = monster_id (monster alt)) \<longrightarrow>
        (\<exists>i. evos_embed_field P state =
           Inr \<lparr>field_name = ''**Evos**'' @
                   (if legend_parts state = [] then []
                    else '' '' @ en_dash @ '' Help: '' @ str_join '' '' (legend_parts state)),
                 links = map (\<lambda>me. (alt_fmt me state, P (monster me))) (alt_monsters state),
                 highlighted = i\<rparr>))"
  using alt_fmt_floor_iff [of me st] alt_fmt_equip [of me st] alt_fmt_plain [of me st]
        irreversible_legend_iff [of state] evos_embed_field_returns [of state P]
  by blast

theorem evos_labels_and_legend_witness:
  "alt_fmt \<lparr>monster = ex_transformed, evolution = Some \<lparr>reversible = False\<rparr>\<rparr> ex_state
     = lfloor_str @ ''501'' @ rfloor_str
   \<and> lfloor_str @ ''Irreversible'' @ rfloor_str \<in> set (legend_parts ex_state)
   \<and> (\<exists>i. evos_embed_field (\<lambda>m. ''url'') ex_state =
         Inr \<lparr>field_name = ''**Evos** '' @ en_dash @ '' Help: '' @ lfloor_str @ ''Irreversible''
                   @ rfloor_str @ '' '' @ lceil_str @ ''Equip'' @ rceil_str,
               links = [(''500'', ''url''), (lfloor_str @ ''501'' @ rfloor_str, ''url''),
                        (lceil_str @ ''502'' @ rceil_str, ''url'')],
               highlighted = i\<rparr>)"
  using evos_labels_and_legend
          [of "\<lparr>monster = ex_transformed, evolution = Some \<lparr>reversible = False\<rparr>\<rparr>"
              ex_state ex_state "\<lambda>m. ''url''"]
  by (simp add: ex_state_def ex_transformed_def ex_base_def ex_equip_def legend_parts_def
      alt_fmt_def str_int_def str_nat.simps digit_char_def)

section \<open>Rows of a transformed monster\<close>

lemma killers_row_transformed:
  assumes "m \<noteq> transform_base"
  shows "killers_row E lower m transform_base =
           Box [Some (BoldText ''Available killers:''),
                Some (Text down_triangle),
                Some (Text (''['' @ str_int (latent_slots transform_base) @ '' slots]'')),
                Some (Text (if ''Any'' \<in> set (killers transform_base) then ''Any''
                            else str_join '' '' (map (killer_latent_emoji E lower)
                                                   (killers transform_base))))]
               (Some '' '')"
  using assms by (simp add: killers_row_def Let_def)

lemma active_skill_header_transformed:
  assumes "m \<noteq> transform_base"
  shows "active_skill_header m transform_base =
           Box [Some (BoldText ''Active Skill''),
                Some (BoldText
                  ((case active_skill m of
                      Some a \<Rightarrow> ''('' @ str_int (turn_min a) @ '' cd)''
                    | None \<Rightarrow> ''None'')
                   @ (case active_skill transform_base of
                        Some b \<Rightarrow> '' ('' @ down_triangle @ '' '' @ str_int (turn_max b)
                                    @ '' -> '' @ str_int (turn_min b) @ '')''
                      | None \<Rightarrow> ''None'')))]
               (Some '' '')"
  using assms by (simp add: active_skill_header_def Let_def)

lemma all_awakenings_row_transformed:
  assumes "m \<noteq> transform_base" and "awakenings m \<noteq> []"
  shows "all_awakenings_row E m transform_base =
           Box [Some (Box [Some (Raw up_triangle), Some (normal_awakenings_row E m)]
                          (Some '' '')),
                Some (Box [Some (Raw down_triangle),
                           Some (all_awakenings_row E transform_base transform_base)]
                          (Some '' '')),
                super_awakenings_row E m] None"
  using assms by (subst all_awakenings_row.simps) simp

lemma all_awakenings_row_empty:
  assumes "awakenings m = []"
  shows "all_awakenings_row E m transform_base = Box [Some (Text ''No Awakenings'')] None"
  using assms by (subst all_awakenings_row.simps) simp

text \<open>
  Claim C5, at a transformed monster that has no awakenings of its own while its transform
  base has three. The killers row and the active skill header show the values of the
  transform base, as the claim says. The awakenings row is the single text
  \<open>No Awakenings\<close>: the function returns before it reaches the transform base, whose
  awakenings are not displayed.
\<close>

theorem transformed_without_awakenings:
  "ex_transformed \<noteq> ex_base
   \<and> awakenings ex_transformed = []
   \<and> all_awakenings_row ex_emoji ex_base ex_base =
       Box [Some (Box [Some (Raw []),
                       Some (Box [Some (Text '':skill_boost:''), Some (Text '':two_pronged:'')]
                                 (Some '' ''))] (Some '' '')),
            None,
            Some (Box [Some (Text '':sa_questionmark:''), Some (Text '':seven_combo:'')]
                      (Some '' ''))] None
   \<and> all_awakenings_row ex_emoji ex_transformed ex_base =
       Box [Some (Text ''No Awakenings'')] None
   \<and> killers_row ex_emoji ex_lower ex_transformed ex_base =
       Box [Some (BoldText ''Available killers:''), Some (Text down_triangle),
            Some (Text ''[8 slots]''),
            Some (Text '':latent_killer_god: :latent_killer_dragon:'')] (Some '' '')
   \<and> active_skill_header ex_transformed ex_base =
       Box [Some (BoldText ''Active Skill''),
            Some (BoldText (''(3 cd) ('' @ down_triangle @ '' 20 -> 10)''))] (Some '' '')"
proof -
  have ne: "ex_transformed \<noteq> ex_base"
    by (simp add: ex_transformed_def ex_base_def)
  have own: "awakenings ex_transformed = []"
    by (simp add: ex_transformed_def)
  have base: "all_awakenings_row ex_emoji ex_base ex_base =
       Box [Some (Box [Some (Raw []),
                       Some (Box [Some (Text '':skill_boost:''), Some (Text '':two_pronged:'')]
                                 (Some '' ''))] (Some '' '')),
            None,
            Some (Box [Some (Text '':sa_questionmark:''), Some (Text '':seven_combo:'')]
                      (Some '' ''))] None"
    by (subst all_awakenings_row.simps)
       (simp add: ex_base_def ex_emoji_def normal_awakenings_row_def super_awakenings_row_def
          slice_to_def slice_from_def slice_bound_def get_awakening_text_def)
  have row: "all_awakenings_row ex_emoji ex_transformed ex_base =
       Box [Some (Text ''No Awakenings'')] None"
    by (rule all_awakenings_row_empty [OF own])
  have k: "killers_row ex_emoji ex_lower ex_transformed ex_base =
       Box [Some (BoldText ''Available killers:''), Some (Text down_triangle),
            Some (Text ''[8 slots]''),
            Some (Text '':latent_killer_god: :latent_killer_dragon:'')] (Some '' '')"
    by (subst killers_row_transformed [OF ne])
       (simp add: ex_base_def ex_emoji_def killer_latent_emoji_def ex_lower_def ex_lower_char_def
          str_int_def str_nat.simps digit_char_def)
  have a: "active_skill_header ex_transformed ex_base =
       Box [Some (BoldText ''Active Skill''),
            Some (BoldText (''(3 cd) ('' @ down_triangle @ '' 20 -> 10)''))] (Some '' '')"
    by (subst active_skill_header_transformed [OF ne])
       (simp add: ex_base_def ex_transformed_def str_int_def str_nat.simps digit_char_def)
  from ne own base row k a show ?thesis by blast
qed

section \<open>The resolution flags\<close>

text \<open>
  Claim C4. The flags of a find-monster call are the instance defaults
  \<open>{'na_prio': True, 'server': DEFAULT_SERVER}\<close> overlaid by the flags stored for the
  calling user: on every key the user's value wins when there is one, and the default
  stands otherwise. Both \<open>find_monster\<close> and \<open>find_monsters\<close> hand the resolver the flags
  computed from the store as it is at the call, so a call made after the user's flags
  were replaced resolves with the new flags.
\<close>

theorem fm_flags_layered:
  "fm_flags_default D = [''na_prio'' \<mapsto> FlagBool True, ''server'' \<mapsto> FlagServer D]
   \<and> get_fm_flags D config author_id key =
       (case user_fm_flags config author_id key of
          Some v \<Rightarrow> Some v
        | None \<Rightarrow> fm_flags_default D key)
   \<and> find_monster F D config query author_id = F (get_fm_flags D config author_id) query
   \<and> find_monsters G D config query author_id = G (get_fm_flags D config author_id) query
   \<and> get_fm_flags D (config(author_id \<mapsto> flags)) author_id = fm_flags_default D ++ flags
   \<and> find_monster F D (config(author_id \<mapsto> flags)) query author_id =
       F (fm_flags_default D ++ flags) query"
  by (simp add: fm_flags_default_def get_fm_flags_def find_monster_def find_monsters_def
      user_fm_flags_def map_add_def split: option.splits)

theorem fm_flags_layered_witness:
  "get_fm_flags ''COMBINED'' ex_user_config 7 ''server'' = Some (FlagServer ''NA'')
   \<and> get_fm_flags ''COMBINED'' ex_user_config 7 ''na_prio'' = Some (FlagBool True)
   \<and> get_fm_flags ''COMBINED'' ex_user_config 8 ''server'' = Some (FlagServer ''COMBINED'')
   \<and> get_fm_flags ''COMBINED'' (ex_user_config(7 \<mapsto> [''na_prio'' \<mapsto> FlagBool False])) 7
       = [''na_prio'' \<mapsto> FlagBool False, ''server'' \<mapsto> FlagServer ''COMBINED'']"
  using fm_flags_layered [of "''COMBINED''" ex_user_config 7 "''server''"]
  by (auto simp: get_fm_flags_def fm_flags_default_def user_fm_flags_def ex_user_config_def
      map_add_def fun_eq_iff)

section \<open>The issue report\<close>

lemma check_index_restricted:
  "debug_monster_ids graph \<noteq> None \<Longrightarrow>
   check_index pagify box bot' config graph index_issues test_results = Inr []"
  by (auto simp: check_index_def Let_def)

lemma check_index_sends_unrestricted:
  "check_index pagify box bot' config graph index_issues test_results = Inr sends \<Longrightarrow>
   sends \<noteq> [] \<Longrightarrow> debug_monster_ids graph = None"
  by (auto simp: check_index_def Let_def split: if_splits)

lemma check_index_configured_channel:
  assumes "graph_issues graph @ concat index_issues @ test_results \<noteq> []"
    and "debug_monster_ids graph = None"
    and "get_channel bot' (indexlog config) = Some channel"
  shows "check_index pagify box bot' config graph index_issues test_results =
           Inr (map (\<lambda>page. (channel, box page))
                  (pagify (''Load Warnings:'' @ newline @ str_join newline
                     (take 100 (graph_issues graph @ concat index_issues @ test_results)))))"
  using assms by (simp add: check_index_def Let_def slice_to_take)

lemma check_index_owners:
  assumes "graph_issues graph @ concat index_issues @ test_results \<noteq> []"
    and "debug_monster_ids graph = None"
    and "get_channel bot' (indexlog config) = None"
    and "valid_prefixes bot' = prefix # rest"
  shows "check_index pagify box bot' config graph index_issues test_results =
           Inr (map (\<lambda>channel. (channel, failure_channel_hint prefix))
                  (List.map_filter (get_user bot') (owner_ids bot'))
                @ concat (map (\<lambda>page. map (\<lambda>channel. (channel, box page))
                                         (List.map_filter (get_user bot') (owner_ids bot')))
                  (pagify (''Load Warnings:'' @ newline @ str_join newline
                     (take 100 (graph_issues graph @ concat index_issues @ test_results))))))"
  using assms by (simp add: check_index_def Let_def slice_to_take)

text \<open>
  Claim C8. When \<open>check_index\<close> reports, the text it pages is the header line followed by
  the first 100 entries, one per line, of the list made of the graph's issues, then the
  issues of every index in order, then the self-test results. Every page goes, boxed, to
  the configured channel, or else to every owner after a hint about the failure channel.
  No more than 100 issues are reported; when the graph alone has 100 issues or more, only
  graph issues are.
\<close>

theorem operator_report_order_and_cap:
  "(let issues = graph_issues graph @ concat index_issues @ test_results;
        report = ''Load Warnings:'' @ newline @ str_join newline (take 100 issues);
        owners = List.map_filter (get_user bot') (owner_ids bot')
    in (issues \<noteq> [] \<and> debug_monster_ids graph = None
          \<and> get_channel bot' (indexlog config) = Some channel \<longrightarrow>
        check_index pagify box bot' config graph index_issues test_results =
          Inr (map (\<lambda>page. (channel, box page)) (pagify report)))
     \<and> (issues \<noteq> [] \<and> debug_monster_ids graph = None
          \<and> get_channel bot' (indexlog config) = None
          \<and> valid_prefixes bot' = prefix # rest \<longrightarrow>
        check_index pagify box bot' config graph index_issues test_results =
          Inr (map (\<lambda>c. (c, failure_channel_hint prefix)) owners
               @ concat (map (\<lambda>page. map (\<lambda>c. (c, box page)) owners) (pagify report))))
     \<and> length (take 100 issues) \<le> 100
     \<and> (100 \<le> length (graph_issues graph) \<longrightarrow>
          take 100 issues = take 100 (graph_issues graph)))"
  unfolding Let_def
  using check_index_configured_channel [of graph index_issues test_results bot' config channel
          pagify box]
        check_index_owners [of graph index_issues test_results bot' config prefix rest pagify box]
  by simp

theorem operator_report_order_and_cap_witness:
  "check_index ex_pagify ex_box ex_bot ex_config ex_graph [[''na1''], [''kr1'']] [''t1'']
     = Inr [(''#index-log'',
             ''```Load Warnings:'' @ newline @ ''g1'' @ newline @ ''g2'' @ newline @ ''na1''
               @ newline @ ''kr1'' @ newline @ ''t1```'')]
   \<and> check_index ex_pagify ex_box ex_bot (ex_config\<lparr>indexlog := 0\<rparr>) ex_graph [] []
     = Inr [(''@owner'', failure_channel_hint ''^''),
            (''@owner'', ''```Load Warnings:'' @ newline @ ''g1'' @ newline @ ''g2```'')]"
  using operator_report_order_and_cap
          [of ex_graph "[[''na1''], [''kr1'']]" "[''t1'']" ex_bot ex_config "''#index-log''"
              ex_pagify ex_box "''^''" "[]"]
        operator_report_order_and_cap
          [of ex_graph "[]" "[]" ex_bot "ex_config\<lparr>indexlog := 0\<rparr>" "''#index-log''"
              ex_pagify ex_box "''^''" "[]"]
  by (simp add: ex_graph_def ex_bot_def ex_config_def ex_pagify_def ex_box_def Let_def
      List.map_filter_def)

text \<open>
  Claim C9. For a graph built in restricted mode (its list of debug monster ids is not
  \<open>None\<close>), \<open>check_index\<close> sends nothing, whatever issues were collected; whenever it
  does send a message, the graph was built unrestricted. The list handed to the loader is
  not \<open>None\<close> exactly when debug mode is on in the configuration.
\<close>

theorem restricted_build_reports_nothing:
  "(debug_monster_ids graph \<noteq> None \<longrightarrow>
      check_index pagify box bot' config graph index_issues test_results = Inr [])
   \<and> (check_index pagify box bot' config graph index_issues test_results = Inr sends
        \<and> sends \<noteq> [] \<longrightarrow> debug_monster_ids graph = None)
   \<and> (get_debug_monsters config \<noteq> None \<longleftrightarrow> debug_mode config)
   \<and> (debug_mode config \<longrightarrow> get_debug_monsters config = Some (debug_mode_monsters config))"
  using check_index_restricted [of graph pagify box bot' config index_issues test_results]
        check_index_sends_unrestricted
          [of pagify box bot' config graph index_issues test_results sends]
  by (simp add: get_debug_monsters_def)

theorem restricted_build_reports_nothing_witness:
  "debug_monster_ids ex_debug_graph \<noteq> None
   \<and> check_index ex_pagify ex_box ex_bot ex_config ex_debug_graph [[''na1'']] [''t1''] = Inr []
   \<and> get_debug_monsters (ex_config\<lparr>debug_mode := True, debug_mode_monsters := []\<rparr>) = Some []"
  using restricted_build_reports_nothing
          [of ex_debug_graph ex_pagify ex_box ex_bot ex_config "[[''na1'']]" "[''t1'']" "[]"]
        restricted_build_reports_nothing
          [of ex_debug_graph ex_pagify ex_box ex_bot
              "ex_config\<lparr>debug_mode := True, debug_mode_monsters := []\<rparr>" "[]" "[]" "[]"]
  by (simp add: ex_debug_graph_def)

section \<open>Steps of the tasks\<close>


lemma create_index_frame:
  "is_ready (snd (create_index w s)) = is_ready s"
  "ready_waiters (snd (create_index w s)) = ready_waiters s"
  "fir_lock (snd (create_index w s)) = fir_lock s"
  "fir3_lock (snd (create_index w s)) = fir3_lock s"
  by (simp_all add: create_index_def split: option.splits)

lemma download_frame:
  "is_ready (snd (download_and_refresh_nicknames w s)) = is_ready s"
  "ready_waiters (snd (download_and_refresh_nicknames w s)) = ready_waiters s"
  "fir_lock (snd (download_and_refresh_nicknames w s)) = fir_lock s"
  "fir3_lock (snd (download_and_refresh_nicknames w s)) = fir3_lock s"
  by (simp_all add: download_and_refresh_nicknames_def create_index_frame split: option.splits sum.splits)

lemma download_frame_pair:
  "download_and_refresh_nicknames w s = (r, s') \<Longrightarrow>
     is_ready s' = is_ready s \<and> ready_waiters s' = ready_waiters s
     \<and> fir_lock s' = fir_lock s \<and> fir3_lock s' = fir3_lock s"
  using download_frame [of w s] by simp

lemma create_index_frame_pair:
  "create_index w s = (r, s') \<Longrightarrow>
     is_ready s' = is_ready s \<and> ready_waiters s' = ready_waiters s
     \<and> fir_lock s' = fir_lock s \<and> fir3_lock s' = fir3_lock s"
  using create_index_frame [of w s] by simp

lemma coroutine_keeps_ready:
  "is_ready s \<Longrightarrow> coroutine kind w task p s = (effects, p', s') \<Longrightarrow> is_ready s'"
  by (cases kind; cases p)
     (auto simp: event_wait_def event_set_def split: prod.splits option.splits if_splits
           dest: download_frame_pair create_index_frame_pair)

lemma coroutine_raises_ready:
  "\<not> is_ready s \<Longrightarrow> coroutine kind w task p s = (effects, p', s') \<Longrightarrow> is_ready s' \<Longrightarrow>
   kind = ReloadDataTask \<and> p = Refresh \<and> fst (download_and_refresh_nicknames w s) = None"
  by (cases kind; cases p)
     (auto simp: event_wait_def event_set_def split: prod.splits option.splits if_splits
           dest: download_frame_pair create_index_frame_pair)


lemma first_reload_append:
  "first_reload (a @ b) = (case first_reload a of Some k \<Rightarrow> Some k | None \<Rightarrow> first_reload b)"
  by (induction a rule: first_reload.induct) auto

lemma first_reload_None: "first_reload tr = None \<longleftrightarrow> (\<forall>k. (k, Reloaded) \<notin> set tr)"
  by (induction tr rule: first_reload.induct) auto

lemma coroutine_before_ready:
  assumes "\<not> is_ready s" and "coroutine kind w task p s = (effects, p', s')"
    and "\<not> is_ready s'"
    and "forced kind \<longrightarrow> before_work p"
    and "kind = WaitUntilReady \<longrightarrow> p \<noteq> Returned"
    and "kind \<noteq> ReloadDataTask \<and> p = Suspended \<longrightarrow> task \<in> set (ready_waiters s)"
  shows "(forced kind \<longrightarrow> before_work p')
       \<and> (kind = WaitUntilReady \<longrightarrow> p' \<noteq> Returned)
       \<and> (kind \<noteq> ReloadDataTask \<and> p' = Suspended \<longrightarrow> task \<in> set (ready_waiters s'))
       \<and> set (ready_waiters s) \<subseteq> set (ready_waiters s')
       \<and> (kind \<noteq> ReloadDataTask \<longrightarrow> Reloaded \<notin> set effects)"
  using assms
  by (cases kind; cases p)
     (auto simp: event_wait_def event_set_def split: prod.splits option.splits if_splits
           dest: download_frame_pair create_index_frame_pair)

lemma reload_data_task_effects:
  "reload_data_task w task p s = (effects, p', s') \<Longrightarrow> effects = [] \<or> effects = [Reloaded]"
  by (cases p) (auto split: prod.splits option.splits if_splits)

lemma step_not_yet_ready:
  assumes inv: "not_yet_ready sys" and st: "step ev sys = (effects, sys')"
    and quiet: "(ReloadDataTask, Reloaded) \<notin> set effects"
  shows "not_yet_ready sys' \<and> first_reload effects = None"
proof (cases ev)
  case (Invoke kind)
  with inv st show ?thesis
    by (auto simp: not_yet_ready_def nth_append split: if_splits)
next
  case Unload
  with inv st show ?thesis
    by (auto simp: not_yet_ready_def cog_unload_def event_clear_def)
next
  case (Run task w)
  show ?thesis
  proof (cases "task < length (tasks sys)")
    case False
    with Run inv st show ?thesis by auto
  next
    case True
    obtain kind p where kp: "tasks sys ! task = (kind, p)" by (cases "tasks sys ! task")
    obtain effs p' s' where co: "coroutine kind w task p (cog sys) = (effs, p', s')"
      by (cases "coroutine kind w task p (cog sys)")
    from Run True kp co st have eff: "effects = map (Pair kind) effs"
      and sys': "sys' = sys\<lparr>cog := s', tasks := (tasks sys)[task := (kind, p')]\<rparr>"
      by auto
    from inv have nr: "\<not> is_ready (cog sys)" by (simp add: not_yet_ready_def)
    have nr': "\<not> is_ready s'"
    proof
      assume "is_ready s'"
      from coroutine_raises_ready [OF nr co this]
      have k: "kind = ReloadDataTask" and "p = Refresh"
        and "fst (download_and_refresh_nicknames w (cog sys)) = None" by auto
      with co have "effs = [Reloaded]" by (auto split: prod.splits)
      with eff k quiet show False by simp
    qed
    from inv True kp have pre:
      "forced kind \<longrightarrow> before_work p" "kind = WaitUntilReady \<longrightarrow> p \<noteq> Returned"
      "kind \<noteq> ReloadDataTask \<and> p = Suspended \<longrightarrow> task \<in> set (ready_waiters (cog sys))"
      by (auto simp: not_yet_ready_def)
    note post = coroutine_before_ready [OF nr co nr' pre]
    have "not_yet_ready sys'"
      unfolding not_yet_ready_def
    proof (intro conjI allI impI)
      show "\<not> is_ready (cog sys')" using nr' sys' by simp
    next
      fix t assume t: "t < length (tasks sys')"
      show "case tasks sys' ! t of
             (kind, p) \<Rightarrow>
               (forced kind \<longrightarrow> before_work p)
               \<and> (kind = WaitUntilReady \<longrightarrow> p \<noteq> Returned)
               \<and> (kind \<noteq> ReloadDataTask \<and> p = Suspended \<longrightarrow>
                    t \<in> set (ready_waiters (cog sys')))"
      proof (cases "t = task")
        case True
        with post sys' t show ?thesis by simp
      next
        case False
        with t sys' have "tasks sys' ! t = tasks sys ! t" and "t < length (tasks sys)" by auto
        with inv post sys' show ?thesis
          by (auto simp: not_yet_ready_def split: prod.splits)
      qed
    qed
    moreover have "first_reload effects = None"
    proof (cases "kind = ReloadDataTask")
      case True
      with co have "effs = [] \<or> effs = [Reloaded]" by (auto dest: reload_data_task_effects)
      with eff True quiet show ?thesis by auto
    next
      case False
      with post have "Reloaded \<notin> set effs" by simp
      with eff show ?thesis by (auto simp: first_reload_None)
    qed
    ultimately show ?thesis by simp
  qed
qed

lemma step_background_reload:
  assumes "step ev sys = (effects, sys')" and "(ReloadDataTask, Reloaded) \<in> set effects"
  shows "first_reload effects = Some ReloadDataTask"
proof (cases ev)
  case (Run task w)
  with assms show ?thesis
    by (auto split: if_splits prod.splits dest!: reload_data_task_effects)
qed (use assms in \<open>auto split: if_splits\<close>)

lemma first_reload_exec:
  "not_yet_ready sys \<Longrightarrow>
   first_reload (fst (exec evs sys)) = None \<or> first_reload (fst (exec evs sys)) = Some ReloadDataTask"
proof (induction evs arbitrary: sys)
  case Nil
  then show ?case by simp
next
  case (Cons ev evs)
  obtain effects sys' where st: "step ev sys = (effects, sys')" by (cases "step ev sys")
  obtain trace sys'' where ex: "exec evs sys' = (trace, sys'')" by (cases "exec evs sys'")
  show ?case
  proof (cases "(ReloadDataTask, Reloaded) \<in> set effects")
    case True
    from step_background_reload [OF st True] st ex show ?thesis
      by (simp add: first_reload_append)
  next
    case False
    from step_not_yet_ready [OF Cons.prems st False]
    have "not_yet_ready sys'" and "first_reload effects = None" by auto
    with Cons.IH [of sys'] st ex show ?thesis
      by (simp add: first_reload_append)
  qed
qed

lemma init_not_yet_ready: "not_yet_ready init_system"
  by (simp add: not_yet_ready_def init_system_def init_dbcog_def)


lemma count_update:
  "t < length ts \<Longrightarrow>
   length (filter P (ts[t := x])) + (if P (ts ! t) then 1 else 0)
     = length (filter P ts) + (if P x then 1 else 0)"
proof (induction ts arbitrary: t)
  case Nil
  then show ?case by simp
next
  case (Cons a ts)
  then show ?case by (cases t) auto
qed

lemma coroutine_gate:
  assumes "coroutine kind' w task p s = (effects, p', s')" and "forced kind"
  shows "if kind' = kind
         then (holds_gate p = holds_gate p' \<and> gate kind s' = gate kind s)
              \<or> (\<not> holds_gate p \<and> holds_gate p' \<and> \<not> gate kind s \<and> gate kind s')
              \<or> (holds_gate p \<and> \<not> holds_gate p' \<and> \<not> gate kind s')
         else gate kind s' = gate kind s"
  using assms
  by (cases kind; cases kind'; cases p)
     (auto simp: event_wait_def event_set_def split: prod.splits option.splits if_splits
           dest: download_frame_pair create_index_frame_pair)

lemma step_gate_owned:
  assumes inv: "gate_owned kind sys" and k: "forced kind" and st: "step ev sys = (effects, sys')"
  shows "gate_owned kind sys'"
proof (cases ev)
  case (Invoke k')
  with inv st show ?thesis
    by (auto simp: gate_owned_def holders_def split: if_splits)
next
  case Unload
  with inv st k show ?thesis
    by (cases kind) (auto simp: gate_owned_def holders_def cog_unload_def event_clear_def)
next
  case (Run task w)
  show ?thesis
  proof (cases "task < length (tasks sys)")
    case False
    with Run inv st show ?thesis by auto
  next
    case True
    obtain kind' p where kp: "tasks sys ! task = (kind', p)" by (cases "tasks sys ! task")
    obtain effs p' s' where co: "coroutine kind' w task p (cog sys) = (effs, p', s')"
      by (cases "coroutine kind' w task p (cog sys)")
    from Run True kp co st
    have sys': "sys' = sys\<lparr>cog := s', tasks := (tasks sys)[task := (kind', p')]\<rparr>"
      by auto
    let ?P = "\<lambda>(k, p). k = kind \<and> holds_gate p"
    from count_update [OF True, of ?P "(kind', p')"] kp sys'
    have cnt: "holders kind sys' + (if kind' = kind \<and> holds_gate p then 1 else 0)
                 = holders kind sys + (if kind' = kind \<and> holds_gate p' then 1 else 0)"
      by (simp add: holders_def)
    from True kp have mem: "kind' = kind \<and> holds_gate p \<Longrightarrow> 0 < holders kind sys"
      unfolding holders_def
      by (metis (mono_tags, lifting) case_prod_conv filter_empty_conv length_greater_0_conv nth_mem)
    show ?thesis
      using coroutine_gate [OF co k] cnt inv mem sys'
      by (auto simp: gate_owned_def split: if_splits)
  qed
qed

lemma exec_gate_owned:
  "gate_owned kind sys \<Longrightarrow> forced kind \<Longrightarrow> gate_owned kind (snd (exec evs sys))"
proof (induction evs arbitrary: sys)
  case Nil
  then show ?case by simp
next
  case (Cons ev evs)
  obtain effects sys' where st: "step ev sys = (effects, sys')" by (cases "step ev sys")
  from step_gate_owned [OF Cons.prems(1) Cons.prems(2) st] have "gate_owned kind sys'" .
  from Cons.IH [OF this Cons.prems(2)] st show ?case
    by (auto split: prod.splits)
qed

lemma init_gate_owned: "forced kind \<Longrightarrow> gate_owned kind init_system"
  by (cases kind) (simp_all add: gate_owned_def holders_def init_system_def init_dbcog_def)


lemma exec_Cons_snd: "snd (exec (ev # evs) sys) = snd (exec evs (snd (step ev sys)))"
  by (simp split: prod.splits)

lemma exec_Cons_fst:
  "fst (exec (ev # evs) sys) = fst (step ev sys) @ fst (exec evs (snd (step ev sys)))"
  by (simp split: prod.splits)

lemma step_keeps_ready:
  "ev \<noteq> Unload \<Longrightarrow> is_ready (cog sys) \<Longrightarrow> is_ready (cog (snd (step ev sys)))"
  by (cases ev) (auto split: prod.splits dest: coroutine_keeps_ready)

lemma exec_keeps_ready:
  "Unload \<notin> set evs \<Longrightarrow> is_ready (cog sys) \<Longrightarrow> is_ready (cog (snd (exec evs sys)))"
proof (induction evs arbitrary: sys)
  case Nil
  then show ?case by simp
next
  case (Cons ev evs)
  then have "is_ready (cog (snd (step ev sys)))" by (auto intro: step_keeps_ready)
  with Cons show ?case by (simp add: exec_Cons_snd del: exec.simps)
qed

lemma step_reload_sets_ready:
  "step ev sys = (effects, sys') \<Longrightarrow> (ReloadDataTask, Reloaded) \<in> set effects \<Longrightarrow>
   is_ready (cog sys')"
proof (cases ev)
  case (Run task w)
  assume "step ev sys = (effects, sys')" "(ReloadDataTask, Reloaded) \<in> set effects"
  with Run show ?thesis
    apply (auto split: if_splits prod.splits)
    subgoal for p effs p' s'
      by (cases p) (auto simp: event_set_def split: prod.splits option.splits if_splits)
    done
qed (auto split: if_splits)

lemma exec_stays_not_yet_ready:
  "not_yet_ready sys \<Longrightarrow> first_reload (fst (exec evs sys)) = None \<Longrightarrow>
   not_yet_ready (snd (exec evs sys))"
proof (induction evs arbitrary: sys)
  case Nil
  then show ?case by simp
next
  case (Cons ev evs)
  obtain effects sys' where st: "step ev sys = (effects, sys')" by (cases "step ev sys")
  from Cons.prems(2) st have none: "first_reload effects = None"
    and rest: "first_reload (fst (exec evs sys')) = None"
    by (auto simp: first_reload_append split: prod.splits option.splits)
  from none have "(ReloadDataTask, Reloaded) \<notin> set effects" by (simp add: first_reload_None)
  from step_not_yet_ready [OF Cons.prems(1) st this] have "not_yet_ready sys'" by simp
  from Cons.IH [OF this rest] st show ?case by (auto split: prod.splits)
qed

lemma exec_ready_iff:
  "not_yet_ready sys \<Longrightarrow> Unload \<notin> set evs \<Longrightarrow>
   is_ready (cog (snd (exec evs sys))) \<longleftrightarrow> first_reload (fst (exec evs sys)) \<noteq> None"
proof (induction evs arbitrary: sys)
  case Nil
  then show ?case by (simp add: not_yet_ready_def)
next
  case (Cons ev evs)
  obtain effects sys' where st: "step ev sys = (effects, sys')" by (cases "step ev sys")
  show ?case
  proof (cases "(ReloadDataTask, Reloaded) \<in> set effects")
    case True
    from step_reload_sets_ready [OF st True] have "is_ready (cog sys')" .
    with Cons.prems(2) have "is_ready (cog (snd (exec evs sys')))"
      by (auto intro: exec_keeps_ready)
    moreover from True have "first_reload effects \<noteq> None" by (auto simp: first_reload_None)
    ultimately show ?thesis using st
      by (auto simp: first_reload_append split: prod.splits option.splits)
  next
    case False
    from step_not_yet_ready [OF Cons.prems(1) st False]
    have "not_yet_ready sys'" and "first_reload effects = None" by auto
    with Cons.IH [of sys'] Cons.prems(2) st show ?thesis
      by (auto simp: first_reload_append split: prod.splits)
  qed
qed

lemma fir_ignores_fir3:
  "forceindexreload w task p (s\<lparr>fir3_lock := b\<rparr>) =
     (case forceindexreload w task p s of (e, p', s') \<Rightarrow> (e, p', s'\<lparr>fir3_lock := b\<rparr>))"
  by (cases p)
     (auto simp: event_wait_def download_and_refresh_nicknames_def create_index_def
           split: prod.splits option.splits sum.splits)

lemma fir3_ignores_fir:
  "forceindexreload3 w task p (s\<lparr>fir_lock := b\<rparr>) =
     (case forceindexreload3 w task p s of (e, p', s') \<Rightarrow> (e, p', s'\<lparr>fir_lock := b\<rparr>))"
  by (cases p)
     (auto simp: event_wait_def download_and_refresh_nicknames_def create_index_def
           split: prod.splits option.splits sum.splits)

lemma step_raises_ready:
  assumes "\<not> is_ready (cog sys)" and "is_ready (cog (snd (step ev sys)))"
  shows "\<exists>task w. ev = Run task w \<and> task < length (tasks sys)
           \<and> tasks sys ! task = (ReloadDataTask, Refresh)
           \<and> fst (download_and_refresh_nicknames w (cog sys)) = None
           \<and> fst (step ev sys) = [(ReloadDataTask, Reloaded)]"
proof (cases ev)
  case (Invoke kind)
  with assms show ?thesis by (auto split: if_splits)
next
  case Unload
  with assms show ?thesis by (simp add: cog_unload_def event_clear_def)
next
  case (Run task w)
  show ?thesis
  proof (cases "task < length (tasks sys)")
    case False
    with Run assms show ?thesis by simp
  next
    case True
    obtain kind p where kp: "tasks sys ! task = (kind, p)" by (cases "tasks sys ! task")
    obtain effs p' s' where co: "coroutine kind w task p (cog sys) = (effs, p', s')"
      by (cases "coroutine kind w task p (cog sys)")
    from Run True kp co assms(2) have "is_ready s'" by simp
    from coroutine_raises_ready [OF assms(1) co this]
    have k: "kind = ReloadDataTask" and p: "p = Refresh"
      and ok: "fst (download_and_refresh_nicknames w (cog sys)) = None" by auto
    from co k p ok have "effs = [Reloaded]" by (auto split: prod.splits)
    with Run True kp co k p ok show ?thesis by simp
  qed
qed

lemma step_refresh_sets_ready:
  assumes "task < length (tasks sys)" and "tasks sys ! task = (ReloadDataTask, Refresh)"
    and "fst (download_and_refresh_nicknames w (cog sys)) = None"
  shows "is_ready (cog (snd (step (Run task w) sys)))
       \<and> fst (step (Run task w) sys) = [(ReloadDataTask, Reloaded)]"
  using assms by (auto simp: event_set_def split: prod.splits)

lemma exec_ready_background:
  assumes "is_ready (cog (snd (exec evs init_system)))"
  shows "first_reload (fst (exec evs init_system)) = Some ReloadDataTask"
proof -
  have "first_reload (fst (exec evs init_system)) \<noteq> None"
  proof
    assume "first_reload (fst (exec evs init_system)) = None"
    from exec_stays_not_yet_ready [OF init_not_yet_ready this] assms show False
      by (simp add: not_yet_ready_def)
  qed
  with first_reload_exec [OF init_not_yet_ready, of evs] show ?thesis by simp
qed

section \<open>The refresh loop\<close>

lemma download_failures:
  "fetch_raises w = Some ex
     \<or> fetch_raises w = None \<and> load_result w = Inl ex
     \<or> fetch_raises w = None \<and> load_result w = Inr db \<and> index_raises w = Some ex \<Longrightarrow>
   fst (download_and_refresh_nicknames w s) = Some ex"
  by (auto simp: download_and_refresh_nicknames_def create_index_def)

lemma download_success:
  "fetch_raises w = None \<Longrightarrow> load_result w = Inr db \<Longrightarrow> index_raises w = None \<Longrightarrow>
   download_and_refresh_nicknames w s = (None, s\<lparr>database := Some db, indexes := Some db\<rparr>)"
  by (simp add: download_and_refresh_nicknames_def create_index_def)

text \<open>
  Claim C3 as stated fails: an exception does propagate out of an iteration. A
  cancellation raised while the data file is fetched is not an \<open>Exception\<close>, so the
  \<open>except Exception\<close> clause lets it through; and an exception raised by the sleep is
  logged and raised again. In both cases the task of the loop ends with the exception.
\<close>

theorem refresh_loop_lets_exceptions_through:
  "reload_data_task ex_cancelled_world 0 Refresh init_dbcog =
     ([], Raised (PyBaseException ''CancelledError''), init_dbcog)
   \<and> reload_data_task ex_sleep_failing_world 0 (Sleep 60) init_dbcog =
     ([], Raised (PyException ''RuntimeError''), init_dbcog)"
  by (simp add: ex_cancelled_world_def ex_sleep_failing_world_def ex_world_def
      download_and_refresh_nicknames_def)

text \<open>
  Claim C3, amended. In an iteration of the background loop, a failure of the fetch, of
  the load or of the index build that is an \<open>Exception\<close> is caught: the iteration goes on
  to sleep, for 60 seconds, and leaves the readiness flag as it was. After a refresh that
  succeeded it sleeps \<open>60 * 60 * 4 = 14400\<close> seconds, four hours. An exception of the
  refresh that is not an \<open>Exception\<close> ends the task with that exception, and so does any
  exception raised by the sleep. When the sleep ends without one, the loop tests its
  condition: still registered, it attempts the next refresh, and otherwise it returns.
\<close>

theorem refresh_loop_backoff:
  "(fst (download_and_refresh_nicknames w s) = Some ex \<and> is_Exception ex \<longrightarrow>
      reload_data_task w task Refresh s = ([], Sleep 60, snd (download_and_refresh_nicknames w s))
      \<and> is_ready (snd (download_and_refresh_nicknames w s)) = is_ready s)
   \<and> (fst (download_and_refresh_nicknames w s) = Some ex \<and> \<not> is_Exception ex \<longrightarrow>
      reload_data_task w task Refresh s =
        ([], Raised ex, snd (download_and_refresh_nicknames w s)))
   \<and> (fetch_raises w = Some ex
        \<or> fetch_raises w = None \<and> load_result w = Inl ex
        \<or> fetch_raises w = None \<and> load_result w = Inr db \<and> index_raises w = Some ex \<longrightarrow>
      fst (download_and_refresh_nicknames w s) = Some ex)
   \<and> (fetch_raises w = None \<and> load_result w = Inr db \<and> index_raises w = None \<longrightarrow>
      reload_data_task w task Refresh s =
        ([Reloaded], Sleep 14400, event_set (s\<lparr>database := Some db, indexes := Some db\<rparr>)))
   \<and> (sleep_raises w = None \<longrightarrow>
      reload_data_task w task (Sleep seconds) s = ([], LoopTest, s))
   \<and> (sleep_raises w = Some ex \<longrightarrow>
      reload_data_task w task (Sleep seconds) s = ([], Raised ex, s))
   \<and> (registered w \<longrightarrow> reload_data_task w task LoopTest s = ([], Refresh, s))
   \<and> (\<not> registered w \<longrightarrow> reload_data_task w task LoopTest s = ([], Returned, s))"
proof -
  have caught: "fst (download_and_refresh_nicknames w s) = Some ex \<and> is_Exception ex \<longrightarrow>
      reload_data_task w task Refresh s = ([], Sleep 60, snd (download_and_refresh_nicknames w s))
      \<and> is_ready (snd (download_and_refresh_nicknames w s)) = is_ready s"
    by (auto simp: wait_time_def download_frame split: prod.splits)
  have through: "fst (download_and_refresh_nicknames w s) = Some ex \<and> \<not> is_Exception ex \<longrightarrow>
      reload_data_task w task Refresh s =
        ([], Raised ex, snd (download_and_refresh_nicknames w s))"
    by (auto split: prod.splits)
  have ok: "fetch_raises w = None \<and> load_result w = Inr db \<and> index_raises w = None \<longrightarrow>
      reload_data_task w task Refresh s =
        ([Reloaded], Sleep 14400, event_set (s\<lparr>database := Some db, indexes := Some db\<rparr>))"
    by (auto simp: wait_time_def download_success)
  from caught through ok download_failures [of w ex db s] show ?thesis
    by simp
qed

theorem refresh_loop_backoff_witness:
  "reload_data_task ex_failing_world 0 Refresh init_dbcog = ([], Sleep 60, init_dbcog)
   \<and> reload_data_task ex_cancelled_world 0 Refresh init_dbcog =
       ([], Raised (PyBaseException ''CancelledError''), init_dbcog)
   \<and> reload_data_task ex_world 0 Refresh init_dbcog =
       ([Reloaded], Sleep 14400,
        init_dbcog\<lparr>is_ready := True, database := Some 1, indexes := Some 1\<rparr>)
   \<and> reload_data_task ex_world 0 (Sleep 60) init_dbcog = ([], LoopTest, init_dbcog)
   \<and> reload_data_task ex_sleep_failing_world 0 (Sleep 60) init_dbcog =
       ([], Raised (PyException ''RuntimeError''), init_dbcog)
   \<and> reload_data_task ex_world 0 LoopTest init_dbcog = ([], Refresh, init_dbcog)
   \<and> reload_data_task (ex_world\<lparr>registered := False\<rparr>) 0 LoopTest init_dbcog =
       ([], Returned, init_dbcog)"
  using refresh_loop_backoff
          [where w = ex_failing_world and s = init_dbcog and ex = "PyException ''ClientError''"
             and task = 0 and db = 1 and seconds = 60]
        refresh_loop_backoff
          [where w = ex_cancelled_world and s = init_dbcog
             and ex = "PyBaseException ''CancelledError''" and task = 0 and db = 1
             and seconds = 60]
        refresh_loop_backoff
          [where w = ex_world and s = init_dbcog and ex = "PyException ''ClientError''"
             and task = 0 and db = 1 and seconds = 60]
        refresh_loop_backoff
          [where w = ex_sleep_failing_world and s = init_dbcog
             and ex = "PyException ''RuntimeError''" and task = 0 and db = 1 and seconds = 60]
        refresh_loop_backoff
          [where w = "ex_world\<lparr>registered := False\<rparr>" and s = init_dbcog
             and ex = "PyException ''ClientError''" and task = 0 and db = 1 and seconds = 60]
  by (simp add: ex_failing_world_def ex_cancelled_world_def ex_sleep_failing_world_def
      ex_world_def init_dbcog_def download_and_refresh_nicknames_def create_index_def
      event_set_def wait_time_def)

section \<open>The readiness flag\<close>

text \<open>
  Claim C1 as stated fails: the flag is cleared by \<open>cog_unload\<close>. After the first
  successful cycle of the background loop the flag is up; unloading the cog then brings
  it down again.
\<close>

theorem readiness_cleared_by_unload:
  "is_ready (cog (snd (exec ex_first_cycle init_system)))
   \<and> \<not> is_ready (cog (snd (exec (ex_first_cycle @ [Unload]) init_system)))"
  by (simp add: ex_first_cycle_def init_system_def init_dbcog_def ex_world_def
      download_and_refresh_nicknames_def create_index_def event_set_def cog_unload_def
      event_clear_def wait_time_def)

text \<open>
  Claim C1, amended. The readiness flag is raised by the background loop at the end of a
  successful download-and-refresh cycle and by nothing else. In any state of the system,
  before or after an unload, a step that finds the flag down and leaves it up is the
  step of the background loop in which a refresh succeeds, and every such step leaves
  the flag up; so whenever the flag is up in an execution, the first reload finished was
  the background loop's, and in an execution without an unload the flag is up exactly
  from the first successful cycle on. No step of any task brings the flag down, and a
  refresh that fails leaves it as it was; only \<open>cog_unload\<close> clears it. A caller of
  \<open>wait_until_ready\<close> returns at once when the flag is up; otherwise it is suspended,
  stays so while it is among the waiters, and returns after the next \<open>set()\<close>; in every
  execution a caller has returned only after the background loop finished a reload.
\<close>

theorem readiness_flag:
  "(Unload \<notin> set evs \<longrightarrow>
      (is_ready (cog (snd (exec evs init_system)))
         \<longleftrightarrow> first_reload (fst (exec evs init_system)) = Some ReloadDataTask))
   \<and> (is_ready (cog (snd (exec evs init_system))) \<longrightarrow>
        first_reload (fst (exec evs init_system)) = Some ReloadDataTask)
   \<and> (\<not> is_ready (cog sys) \<and> is_ready (cog (snd (step ev sys))) \<longrightarrow>
        (\<exists>t w'. ev = Run t w' \<and> t < length (tasks sys)
           \<and> tasks sys ! t = (ReloadDataTask, Refresh)
           \<and> fst (download_and_refresh_nicknames w' (cog sys)) = None
           \<and> fst (step ev sys) = [(ReloadDataTask, Reloaded)]))
   \<and> (task < length (tasks sys) \<and> tasks sys ! task = (ReloadDataTask, Refresh)
        \<and> fst (download_and_refresh_nicknames w (cog sys)) = None \<longrightarrow>
        is_ready (cog (snd (step (Run task w) sys)))
        \<and> fst (step (Run task w) sys) = [(ReloadDataTask, Reloaded)])
   \<and> (ev \<noteq> Unload \<and> is_ready (cog sys) \<longrightarrow> is_ready (cog (snd (step ev sys))))
   \<and> (fst (download_and_refresh_nicknames w s) = Some ex \<longrightarrow>
        is_ready (snd (snd (reload_data_task w task Refresh s))) = is_ready s)
   \<and> \<not> is_ready (cog (snd (step Unload sys)))
   \<and> (is_ready s \<longrightarrow> wait_until_ready w task Entry s = ([], Returned, s))
   \<and> (\<not> is_ready s \<longrightarrow>
        wait_until_ready w task Entry s =
          ([], Suspended, s\<lparr>ready_waiters := ready_waiters s @ [task]\<rparr>))
   \<and> (task \<in> set (ready_waiters s) \<longrightarrow>
        wait_until_ready w task Suspended s = ([], Suspended, s))
   \<and> (\<not> is_ready s \<longrightarrow>
        wait_until_ready w task Suspended (event_set s) = ([], Returned, event_set s))
   \<and> (task < length (tasks (snd (exec evs init_system)))
        \<and> tasks (snd (exec evs init_system)) ! task = (WaitUntilReady, Returned) \<longrightarrow>
        first_reload (fst (exec evs init_system)) = Some ReloadDataTask)"
proof -
  note first = first_reload_exec [OF init_not_yet_ready, of evs]
  have a: "Unload \<notin> set evs \<longrightarrow>
      (is_ready (cog (snd (exec evs init_system)))
         \<longleftrightarrow> first_reload (fst (exec evs init_system)) = Some ReloadDataTask)"
    using exec_ready_iff [OF init_not_yet_ready, of evs] first by auto
  have a2: "is_ready (cog (snd (exec evs init_system))) \<longrightarrow>
        first_reload (fst (exec evs init_system)) = Some ReloadDataTask"
    by (simp add: exec_ready_background)
  have a3: "\<not> is_ready (cog sys) \<and> is_ready (cog (snd (step ev sys))) \<longrightarrow>
        (\<exists>t w'. ev = Run t w' \<and> t < length (tasks sys)
           \<and> tasks sys ! t = (ReloadDataTask, Refresh)
           \<and> fst (download_and_refresh_nicknames w' (cog sys)) = None
           \<and> fst (step ev sys) = [(ReloadDataTask, Reloaded)])"
    using step_raises_ready [of sys ev] by blast
  have a4: "task < length (tasks sys) \<and> tasks sys ! task = (ReloadDataTask, Refresh)
        \<and> fst (download_and_refresh_nicknames w (cog sys)) = None \<longrightarrow>
        is_ready (cog (snd (step (Run task w) sys)))
        \<and> fst (step (Run task w) sys) = [(ReloadDataTask, Reloaded)]"
    using step_refresh_sets_ready [of task sys w] by blast
  have b: "ev \<noteq> Unload \<and> is_ready (cog sys) \<longrightarrow> is_ready (cog (snd (step ev sys)))"
    by (simp add: step_keeps_ready)
  have c: "fst (download_and_refresh_nicknames w s) = Some ex \<longrightarrow>
        is_ready (snd (snd (reload_data_task w task Refresh s))) = is_ready s"
    by (auto split: prod.splits dest: download_frame_pair)
  have d: "\<not> is_ready (cog (snd (step Unload sys)))"
    by (simp add: cog_unload_def event_clear_def)
  have e: "is_ready s \<longrightarrow> wait_until_ready w task Entry s = ([], Returned, s)"
    by (simp add: event_wait_def)
  have f: "\<not> is_ready s \<longrightarrow>
        wait_until_ready w task Entry s =
          ([], Suspended, s\<lparr>ready_waiters := ready_waiters s @ [task]\<rparr>)"
    by (simp add: event_wait_def)
  have g: "task \<in> set (ready_waiters s) \<longrightarrow>
        wait_until_ready w task Suspended s = ([], Suspended, s)"
    by simp
  have h: "\<not> is_ready s \<longrightarrow>
        wait_until_ready w task Suspended (event_set s) = ([], Returned, event_set s)"
    by (simp add: event_set_def)
  have i: "task < length (tasks (snd (exec evs init_system)))
        \<and> tasks (snd (exec evs init_system)) ! task = (WaitUntilReady, Returned) \<longrightarrow>
        first_reload (fst (exec evs init_system)) = Some ReloadDataTask"
  proof (intro impI, elim conjE)
    assume t: "task < length (tasks (snd (exec evs init_system)))"
      and r: "tasks (snd (exec evs init_system)) ! task = (WaitUntilReady, Returned)"
    have "first_reload (fst (exec evs init_system)) \<noteq> None"
    proof
      assume "first_reload (fst (exec evs init_system)) = None"
      from exec_stays_not_yet_ready [OF init_not_yet_ready this] t r show False
        by (auto simp: not_yet_ready_def)
    qed
    with first show "first_reload (fst (exec evs init_system)) = Some ReloadDataTask" by simp
  qed
  from a a2 a3 a4 b c d e f g h i show ?thesis by blast
qed

theorem readiness_flag_witness:
  "Unload \<notin> set (ex_first_cycle @ [Run 0 ex_world, Run 0 ex_world, Run 0 ex_failing_world])
   \<and> is_ready (cog (snd (exec
        (ex_first_cycle @ [Run 0 ex_world, Run 0 ex_world, Run 0 ex_failing_world])
        init_system)))
   \<and> first_reload (fst (exec
        (ex_first_cycle @ [Run 0 ex_world, Run 0 ex_world, Run 0 ex_failing_world])
        init_system)) = Some ReloadDataTask
   \<and> \<not> is_ready (cog (snd (exec ex_after_unload init_system)))
   \<and> tasks (snd (exec ex_after_unload init_system)) ! 0 = (ReloadDataTask, Refresh)
   \<and> is_ready (cog (snd (step (Run 0 ex_world) (snd (exec ex_after_unload init_system)))))
   \<and> fst (step (Run 0 ex_world) (snd (exec ex_after_unload init_system)))
       = [(ReloadDataTask, Reloaded)]
   \<and> wait_until_ready ex_world 3 Entry init_dbcog =
       ([], Suspended, init_dbcog\<lparr>ready_waiters := [3]\<rparr>)
   \<and> wait_until_ready ex_world 3 Suspended (event_set (init_dbcog\<lparr>ready_waiters := [3]\<rparr>)) =
       ([], Returned, init_dbcog\<lparr>is_ready := True\<rparr>)"
  using readiness_flag
          [where evs = "ex_first_cycle @ [Run 0 ex_world, Run 0 ex_world, Run 0 ex_failing_world]"
             and ev = "Run 0 ex_world" and sys = init_system and w = ex_world
             and s = init_dbcog and ex = "PyException ''e''" and task = 3]
        readiness_flag
          [where evs = "[]" and ev = "Run 0 ex_world"
             and sys = "snd (exec ex_after_unload init_system)" and w = ex_world
             and s = "init_dbcog\<lparr>ready_waiters := [3]\<rparr>" and ex = "PyException ''e''"
             and task = 0]
  by (simp add: ex_after_unload_def ex_first_cycle_def ex_failing_world_def init_system_def
      init_dbcog_def ex_world_def download_and_refresh_nicknames_def create_index_def
      event_set_def event_clear_def cog_unload_def event_wait_def wait_time_def)

section \<open>The reload gates\<close>

text \<open>
  Claim C2. A forced full reload invoked while its lock is held answers the caller
  \<open>Index is already being reloaded.\<close> and returns at once, with the state of the cog
  unchanged: it never waits for the lock. The same holds for the forced index-only reload
  and its lock. Each command passes its check and takes its lock when that lock is free,
  whatever the other lock is: a step of one command neither reads nor changes the lock of
  the other. In every execution each lock is held by exactly one invocation of its command
  when it is held, and by none when it is free.
\<close>

theorem reload_gates:
  "(fir_lock s \<longrightarrow>
      forceindexreload w task Entry s =
        ([Send ''Index is already being reloaded.''], Returned, s))
   \<and> (fir3_lock s \<longrightarrow>
      forceindexreload3 w task Entry s =
        ([Send ''Index is already being reloaded.''], Returned, s))
   \<and> forceindexreload w task Returned s = ([], Returned, s)
   \<and> forceindexreload3 w task Returned s = ([], Returned, s)
   \<and> (\<not> fir_lock s \<longrightarrow>
        forceindexreload w task Entry s = ([], EnterTyping, s)
        \<and> forceindexreload w task AcquireGate s = ([], Announce, s\<lparr>fir_lock := True\<rparr>))
   \<and> (\<not> fir3_lock s \<longrightarrow>
        forceindexreload3 w task Entry s = ([], EnterTyping, s)
        \<and> forceindexreload3 w task AcquireGate s = ([], AwaitReady, s\<lparr>fir3_lock := True\<rparr>))
   \<and> forceindexreload w task p (s\<lparr>fir3_lock := b\<rparr>) =
       (case forceindexreload w task p s of (e, p', s') \<Rightarrow> (e, p', s'\<lparr>fir3_lock := b\<rparr>))
   \<and> forceindexreload3 w task p (s\<lparr>fir_lock := b\<rparr>) =
       (case forceindexreload3 w task p s of (e, p', s') \<Rightarrow> (e, p', s'\<lparr>fir_lock := b\<rparr>))
   \<and> gate_owned ForceIndexReload (snd (exec evs init_system))
   \<and> gate_owned ForceIndexReload3 (snd (exec evs init_system))"
  using fir_ignores_fir3 [where w = w and task = task and p = p and s = s and b = b]
        fir3_ignores_fir [where w = w and task = task and p = p and s = s and b = b]
        exec_gate_owned [OF init_gate_owned, of ForceIndexReload evs]
        exec_gate_owned [OF init_gate_owned, of ForceIndexReload3 evs]
  by simp

theorem reload_gates_witness:
  "fir_lock (init_dbcog\<lparr>fir_lock := True\<rparr>)
   \<and> forceindexreload ex_world 1 Entry (init_dbcog\<lparr>fir_lock := True\<rparr>) =
       ([Send ''Index is already being reloaded.''], Returned, init_dbcog\<lparr>fir_lock := True\<rparr>)
   \<and> forceindexreload3 ex_world 2 Entry (init_dbcog\<lparr>fir_lock := True\<rparr>) =
       ([], EnterTyping, init_dbcog\<lparr>fir_lock := True\<rparr>)
   \<and> forceindexreload3 ex_world 2 AcquireGate (init_dbcog\<lparr>fir_lock := True\<rparr>) =
       ([], AwaitReady, init_dbcog\<lparr>fir_lock := True, fir3_lock := True\<rparr>)
   \<and> gate_owned ForceIndexReload (snd (exec (take 7 ex_schedule) init_system))
   \<and> fir_lock (cog (snd (exec (take 7 ex_schedule) init_system)))"
  using reload_gates [where s = "init_dbcog\<lparr>fir_lock := True\<rparr>" and w = ex_world and task = 1
                        and p = Entry and b = True and evs = "take 7 ex_schedule"]
        reload_gates [where s = "init_dbcog\<lparr>fir_lock := True\<rparr>" and w = ex_world and task = 2
                        and p = Entry and b = True and evs = "take 7 ex_schedule"]
  by (simp add: init_dbcog_def ex_schedule_def init_system_def ex_world_def event_wait_def)

section \<open>Forced reloads before the first refresh\<close>



end
